theory Spec2Isabelle
  imports Main "HOL-Library.Word"
begin

section \<open>Go values\<close>

text \<open>
  The package \<open>rsm\<close> of dragonboat: \<open>internal/rsm/managedstatemachine.go\<close> and
  \<open>internal/rsm/sm.go\<close>. Go's \<open>uint64\<close> is a 64-bit word, \<open>[]byte\<close> a list of
  8-bit words (the nil slice is the empty list). A Go panic is a value \<open>Panic msg\<close>
  on the left of a sum; an \<open>error\<close> result is a \<open>go_error option\<close>, \<open>None\<close> for nil.
\<close>

type_synonym uint64 = "64 word"
type_synonym bytes = "8 word list"

datatype panic = Panic string

datatype go_error = ErrClusterClosed | ErrShortWrite | ErrOther string

section \<open>OffloadedStatus\<close>

text \<open>\<open>type From uint64\<close> with the four constants numbered by \<open>iota\<close>.\<close>

type_synonym From = uint64

definition FromNodeHost :: From where
  "FromNodeHost = 0"

definition FromStepWorker :: From where
  "FromStepWorker = 1"

definition FromCommitWorker :: From where
  "FromCommitWorker = 2"

definition FromSnapshotWorker :: From where
  "FromSnapshotWorker = 3"

record OffloadedStatus =
  readyToDestroy :: bool
  destroyed :: bool
  offloadedFromNodeHost :: bool
  offloadedFromStepWorker :: bool
  offloadedFromCommitWorker :: bool
  offloadedFromSnapshotWorker :: bool
  loadedByStepWorker :: bool
  loadedByCommitWorker :: bool
  loadedBySnapshotWorker :: bool


definition Destroyed :: "'a OffloadedStatus_scheme \<Rightarrow> bool" where
  "Destroyed st = destroyed st"

definition SetDestroyed :: "'a OffloadedStatus_scheme \<Rightarrow> 'a OffloadedStatus_scheme" where
  "SetDestroyed st = st\<lparr>destroyed := True\<rparr>"

definition SetLoaded ::
  "'a OffloadedStatus_scheme \<Rightarrow> From \<Rightarrow> panic + 'a OffloadedStatus_scheme" where
  "SetLoaded st frm =
     (if offloadedFromNodeHost st \<and>
         (frm = FromStepWorker \<or> frm = FromCommitWorker \<or> frm = FromSnapshotWorker)
      then Inl (Panic ''loaded from %v after offloaded from nodehost'')
      else if frm = FromNodeHost
        then Inl (Panic ''not suppose to get loaded notification from nodehost'')
      else if frm = FromStepWorker then Inr (st\<lparr>loadedByStepWorker := True\<rparr>)
      else if frm = FromCommitWorker then Inr (st\<lparr>loadedByCommitWorker := True\<rparr>)
      else if frm = FromSnapshotWorker then Inr (st\<lparr>loadedBySnapshotWorker := True\<rparr>)
      else Inl (Panic ''unknown offloadFrom value''))"

definition SetOffloaded ::
  "'a OffloadedStatus_scheme \<Rightarrow> From \<Rightarrow> panic + 'a OffloadedStatus_scheme" where
  "SetOffloaded st frm =
     (case (if frm = FromNodeHost then Inr (st\<lparr>offloadedFromNodeHost := True\<rparr>)
            else if frm = FromStepWorker then Inr (st\<lparr>offloadedFromStepWorker := True\<rparr>)
            else if frm = FromCommitWorker then Inr (st\<lparr>offloadedFromCommitWorker := True\<rparr>)
            else if frm = FromSnapshotWorker
              then Inr (st\<lparr>offloadedFromSnapshotWorker := True\<rparr>)
            else Inl (Panic ''unknown offloadFrom value'')) of
        Inl p \<Rightarrow> Inl p
      | Inr st1 \<Rightarrow>
          let st2 =
                (if frm = FromNodeHost then
                   let a = (if \<not> loadedByStepWorker st1
                            then st1\<lparr>offloadedFromStepWorker := True\<rparr> else st1);
                       b = (if \<not> loadedByCommitWorker a
                            then a\<lparr>offloadedFromCommitWorker := True\<rparr> else a);
                       c = (if \<not> loadedBySnapshotWorker b
                            then b\<lparr>offloadedFromSnapshotWorker := True\<rparr> else b)
                   in c
                 else st1);
              st3 =
                (if offloadedFromNodeHost st2 \<and> offloadedFromCommitWorker st2 \<and>
                    offloadedFromSnapshotWorker st2 \<and> offloadedFromStepWorker st2
                 then st2\<lparr>readyToDestroy := True\<rparr> else st2)
          in Inr st3)"

text \<open>
  A call on an \<open>OffloadedStatus\<close>, and a sequence of calls run in order; the run stops
  at the first panic.
\<close>

datatype status_call = CallSetLoaded From | CallSetOffloaded From | CallSetDestroyed

fun status_step ::
  "'a OffloadedStatus_scheme \<Rightarrow> status_call \<Rightarrow> panic + 'a OffloadedStatus_scheme" where
  "status_step st (CallSetLoaded frm) = SetLoaded st frm"
| "status_step st (CallSetOffloaded frm) = SetOffloaded st frm"
| "status_step st CallSetDestroyed = Inr (SetDestroyed st)"

fun status_run ::
  "'a OffloadedStatus_scheme \<Rightarrow> status_call list \<Rightarrow> panic + 'a OffloadedStatus_scheme" where
  "status_run st [] = Inr st"
| "status_run st (c # cs) =
     (case status_step st c of Inl p \<Rightarrow> Inl p | Inr st' \<Rightarrow> status_run st' cs)"

text \<open>The zero value of the struct: every flag false.\<close>

definition zero_status :: OffloadedStatus where
  "zero_status =
     \<lparr>readyToDestroy = False, destroyed = False, offloadedFromNodeHost = False,
      offloadedFromStepWorker = False, offloadedFromCommitWorker = False,
      offloadedFromSnapshotWorker = False, loadedByStepWorker = False,
      loadedByCommitWorker = False, loadedBySnapshotWorker = False\<rparr>"

definition all_offloaded :: "'a OffloadedStatus_scheme \<Rightarrow> bool" where
  "all_offloaded st =
     (offloadedFromNodeHost st \<and> offloadedFromStepWorker st \<and>
      offloadedFromCommitWorker st \<and> offloadedFromSnapshotWorker st)"

section \<open>Entries and client sessions\<close>

text \<open>
  \<open>sm.Entry\<close> of the package \<open>statemachine\<close>, with the three fields this package
  reads and writes.
\<close>

record Entry =
  Index :: uint64
  Cmd :: bytes
  Result :: uint64

text \<open>
  Modelled from the spec: the type \<open>Session\<close> and its methods \<open>hasResponded\<close>,
  \<open>getResponse\<close> and \<open>addResponse\<close> (\<open>session.go\<close> is not among the sources). The
  spec's data model: \<open>{ clientID: u64, respondedTo: SeriesID, results: map[SeriesID
  \<rightarrow> u64] }\<close>, all series IDs at or below \<open>respondedTo\<close> count as acknowledged, and
  recording a result for a series ID already present is fatal.
\<close>

record Session =
  clientID :: uint64
  respondedTo :: uint64
  results :: "uint64 \<rightharpoonup> uint64"

text \<open>
  Modelled from the spec: \<open>Session.hasResponded\<close>, missing with \<open>session.go\<close>. "All
  series IDs \<le> \<open>respondedTo\<close> are considered acknowledged."
\<close>

definition hasResponded :: "Session \<Rightarrow> uint64 \<Rightarrow> bool" where
  "hasResponded s sid = (sid \<le> respondedTo s)"

text \<open>
  Modelled from the spec: \<open>Session.getResponse\<close>, missing with \<open>session.go\<close>: the
  lookup of a series ID in the retained results, with Go's zero value and \<open>false\<close> for
  a key that is absent.
\<close>

definition getResponse :: "Session \<Rightarrow> uint64 \<Rightarrow> uint64 \<times> bool" where
  "getResponse s sid = (case results s sid of Some v \<Rightarrow> (v, True) | None \<Rightarrow> (0, False))"

text \<open>
  Modelled from the spec: \<open>Session.addResponse\<close>, missing with \<open>session.go\<close>.
  "Attempting to record a result for a series ID already present is a
  programming-error (fatal) condition."
\<close>

definition addResponse :: "Session \<Rightarrow> uint64 \<Rightarrow> uint64 \<Rightarrow> panic + Session" where
  "addResponse s sid r =
     (case results s sid of
        None \<Rightarrow> Inr (s\<lparr>results := (results s)(sid \<mapsto> r)\<rparr>)
      | Some _ \<Rightarrow> Inl (Panic ''adding a duplicated response''))"

text \<open>
  \<open>SessionManager.UpdateRequired\<close>. The receiver is not used. The session is a
  pointer: calling a method that reads a field through nil panics.
\<close>

definition UpdateRequired :: "Session option \<Rightarrow> uint64 \<Rightarrow> panic + (uint64 \<times> bool \<times> bool)" where
  "UpdateRequired session seriesID =
     (case session of
        None \<Rightarrow> Inl (Panic ''nil pointer dereference'')
      | Some s \<Rightarrow>
          if hasResponded s seriesID then Inr (0, True, False)
          else let (v, ok) = getResponse s seriesID in
            if ok then Inr (v, False, False)
            else Inr (0, False, True))"

section \<open>The adapter: IStateMachine and its two implementations\<close>

text \<open>
  The user's state machines (\<open>sm.IStateMachine\<close> and \<open>sm.IConcurrentStateMachine\<close> of
  the package \<open>statemachine\<close>) are code outside this package: each method is a
  parameter, a function of the user object's state \<open>'u\<close> that returns the new state
  with its results. The writer, reader, file collection and stop channel that the
  snapshot methods receive are passed through untouched by this package, so they are
  part of the function given. \<open>'c\<close> is the type of a snapshot context
  (\<open>interface{}\<close>, nil is \<open>None\<close>).
\<close>

record 'u UserStateMachine =
  u_Update :: "'u \<Rightarrow> bytes \<Rightarrow> uint64 \<times> 'u"
  u_Lookup :: "'u \<Rightarrow> bytes \<Rightarrow> bytes \<times> 'u"
  u_SaveSnapshot :: "'u \<Rightarrow> (uint64 \<times> go_error option) \<times> 'u"
  u_RecoverFromSnapshot :: "'u \<Rightarrow> go_error option \<times> 'u"
  u_Close :: "'u \<Rightarrow> 'u"

record ('u, 'c) UserConcurrentStateMachine =
  c_Update :: "'u \<Rightarrow> Entry list \<Rightarrow> Entry list \<times> 'u"
  c_Lookup :: "'u \<Rightarrow> bytes \<Rightarrow> (bytes \<times> go_error option) \<times> 'u"
  c_PrepareSnapshot :: "'u \<Rightarrow> ('c option \<times> go_error option) \<times> 'u"
  c_SaveSnapshot :: "'u \<Rightarrow> 'c option \<Rightarrow> (uint64 \<times> go_error option) \<times> 'u"
  c_RecoverFromSnapshot :: "'u \<Rightarrow> go_error option \<times> 'u"
  c_Close :: "'u \<Rightarrow> 'u"

text \<open>\<open>RegularStateMachine\<close>: the methods of \<open>sm.go\<close>, lines 51 to 101.\<close>

definition RegularStateMachine_Update ::
  "'u UserStateMachine \<Rightarrow> 'u \<Rightarrow> Entry list \<Rightarrow> panic + (Entry list \<times> 'u)" where
  "RegularStateMachine_Update m u entries =
     (if length entries \<noteq> 1 then Inl (Panic ''len(entries) != 1'')
      else let (r, u') = u_Update m u (Cmd (entries ! 0))
           in Inr (entries[0 := (entries ! 0)\<lparr>Result := r\<rparr>], u'))"

definition RegularStateMachine_Lookup ::
  "'u UserStateMachine \<Rightarrow> 'u \<Rightarrow> bytes \<Rightarrow> (bytes \<times> go_error option) \<times> 'u" where
  "RegularStateMachine_Lookup m u query =
     (let (v, u') = u_Lookup m u query in ((v, None), u'))"

definition RegularStateMachine_PrepareSnapshot ::
  "'u UserStateMachine \<Rightarrow> 'u \<Rightarrow> panic + (('c option \<times> go_error option) \<times> 'u)" where
  "RegularStateMachine_PrepareSnapshot m u =
     Inl (Panic ''PrepareSnapshot called on RegularStateMachine'')"

definition RegularStateMachine_SaveSnapshot ::
  "'u UserStateMachine \<Rightarrow> 'u \<Rightarrow> 'c option \<Rightarrow> panic + ((uint64 \<times> go_error option) \<times> 'u)" where
  "RegularStateMachine_SaveSnapshot m u ctx =
     (if ctx \<noteq> None then Inl (Panic ''ctx is not nil'')
      else Inr (u_SaveSnapshot m u))"

definition RegularStateMachine_RecoverFromSnapshot ::
  "'u UserStateMachine \<Rightarrow> 'u \<Rightarrow> go_error option \<times> 'u" where
  "RegularStateMachine_RecoverFromSnapshot m u = u_RecoverFromSnapshot m u"

definition RegularStateMachine_Close :: "'u UserStateMachine \<Rightarrow> 'u \<Rightarrow> 'u" where
  "RegularStateMachine_Close m u = u_Close m u"

definition RegularStateMachine_ConcurrentSnapshot :: "'u UserStateMachine \<Rightarrow> bool" where
  "RegularStateMachine_ConcurrentSnapshot m = False"

text \<open>\<open>ConcurrentStateMachine\<close>: the methods of \<open>sm.go\<close>, lines 115 to 157.\<close>

definition ConcurrentStateMachine_Update ::
  "('u, 'c) UserConcurrentStateMachine \<Rightarrow> 'u \<Rightarrow> Entry list \<Rightarrow> panic + (Entry list \<times> 'u)" where
  "ConcurrentStateMachine_Update m u entries = Inr (c_Update m u entries)"

definition ConcurrentStateMachine_Lookup ::
  "('u, 'c) UserConcurrentStateMachine \<Rightarrow> 'u \<Rightarrow> bytes \<Rightarrow> (bytes \<times> go_error option) \<times> 'u" where
  "ConcurrentStateMachine_Lookup m u query = c_Lookup m u query"

definition ConcurrentStateMachine_PrepareSnapshot ::
  "('u, 'c) UserConcurrentStateMachine \<Rightarrow> 'u \<Rightarrow> panic + (('c option \<times> go_error option) \<times> 'u)" where
  "ConcurrentStateMachine_PrepareSnapshot m u = Inr (c_PrepareSnapshot m u)"

definition ConcurrentStateMachine_SaveSnapshot ::
  "('u, 'c) UserConcurrentStateMachine \<Rightarrow> 'u \<Rightarrow> 'c option \<Rightarrow>
     panic + ((uint64 \<times> go_error option) \<times> 'u)" where
  "ConcurrentStateMachine_SaveSnapshot m u ctx = Inr (c_SaveSnapshot m u ctx)"

definition ConcurrentStateMachine_RecoverFromSnapshot ::
  "('u, 'c) UserConcurrentStateMachine \<Rightarrow> 'u \<Rightarrow> go_error option \<times> 'u" where
  "ConcurrentStateMachine_RecoverFromSnapshot m u = c_RecoverFromSnapshot m u"

definition ConcurrentStateMachine_Close :: "('u, 'c) UserConcurrentStateMachine \<Rightarrow> 'u \<Rightarrow> 'u" where
  "ConcurrentStateMachine_Close m u = c_Close m u"

definition ConcurrentStateMachine_ConcurrentSnapshot ::
  "('u, 'c) UserConcurrentStateMachine \<Rightarrow> bool" where
  "ConcurrentStateMachine_ConcurrentSnapshot m = True"

text \<open>
  The interface \<open>IStateMachine\<close>: a value of it is one of the two adapters, and a
  method call dispatches on which.
\<close>

datatype ('u, 'c) IStateMachine =
  Regular "'u UserStateMachine"
| Concurrent "('u, 'c) UserConcurrentStateMachine"

fun IStateMachine_Update ::
  "('u, 'c) IStateMachine \<Rightarrow> 'u \<Rightarrow> Entry list \<Rightarrow> panic + (Entry list \<times> 'u)" where
  "IStateMachine_Update (Regular m) u entries = RegularStateMachine_Update m u entries"
| "IStateMachine_Update (Concurrent m) u entries = ConcurrentStateMachine_Update m u entries"

fun IStateMachine_Lookup ::
  "('u, 'c) IStateMachine \<Rightarrow> 'u \<Rightarrow> bytes \<Rightarrow> (bytes \<times> go_error option) \<times> 'u" where
  "IStateMachine_Lookup (Regular m) u query = RegularStateMachine_Lookup m u query"
| "IStateMachine_Lookup (Concurrent m) u query = ConcurrentStateMachine_Lookup m u query"

fun IStateMachine_PrepareSnapshot ::
  "('u, 'c) IStateMachine \<Rightarrow> 'u \<Rightarrow> panic + (('c option \<times> go_error option) \<times> 'u)" where
  "IStateMachine_PrepareSnapshot (Regular m) u = RegularStateMachine_PrepareSnapshot m u"
| "IStateMachine_PrepareSnapshot (Concurrent m) u = ConcurrentStateMachine_PrepareSnapshot m u"

fun IStateMachine_SaveSnapshot ::
  "('u, 'c) IStateMachine \<Rightarrow> 'u \<Rightarrow> 'c option \<Rightarrow> panic + ((uint64 \<times> go_error option) \<times> 'u)" where
  "IStateMachine_SaveSnapshot (Regular m) u ctx = RegularStateMachine_SaveSnapshot m u ctx"
| "IStateMachine_SaveSnapshot (Concurrent m) u ctx = ConcurrentStateMachine_SaveSnapshot m u ctx"

fun IStateMachine_RecoverFromSnapshot ::
  "('u, 'c) IStateMachine \<Rightarrow> 'u \<Rightarrow> go_error option \<times> 'u" where
  "IStateMachine_RecoverFromSnapshot (Regular m) u = RegularStateMachine_RecoverFromSnapshot m u"
| "IStateMachine_RecoverFromSnapshot (Concurrent m) u =
     ConcurrentStateMachine_RecoverFromSnapshot m u"

fun IStateMachine_Close :: "('u, 'c) IStateMachine \<Rightarrow> 'u \<Rightarrow> 'u" where
  "IStateMachine_Close (Regular m) u = RegularStateMachine_Close m u"
| "IStateMachine_Close (Concurrent m) u = ConcurrentStateMachine_Close m u"

fun IStateMachine_ConcurrentSnapshot :: "('u, 'c) IStateMachine \<Rightarrow> bool" where
  "IStateMachine_ConcurrentSnapshot (Regular m) = RegularStateMachine_ConcurrentSnapshot m"
| "IStateMachine_ConcurrentSnapshot (Concurrent m) = ConcurrentStateMachine_ConcurrentSnapshot m"

section \<open>NativeStateMachine\<close>

text \<open>
  What the managed state machine does to the objects around it is kept as a list of
  events, oldest first: the lock operations on \<open>ds.mu\<close>, the calls on the adapter
  \<open>ds.sm\<close>, and the calls on the snapshot writer, the snapshot reader and the session
  store.
\<close>

datatype event =
  EvLock | EvUnlock | EvRLock | EvRUnlock
| EvUpdate "Entry list" | EvLookup bytes | EvPrepareSnapshot | EvSaveSnapshot
| EvRecoverFromSnapshot | EvClose
| EvWrite bytes | EvSaveHeader uint64 uint64
| EvNewSnapshotReader string | EvGetHeader | EvValidateHeader | EvSessionsLoad
| EvValidatePayload | EvReaderClose

text \<open>
  The struct embeds \<open>OffloadedStatus\<close>: the record extends it. \<open>sm\<close> is the adapter,
  \<open>ustate\<close> the state of the user object behind it, \<open>events\<close> the history above. The
  channel \<open>done\<close> is only handed on to the adapter; the embedded \<open>SessionManager\<close>
  holds the session store, whose code is not among the sources.
\<close>

record ('u, 'c) NativeStateMachine = OffloadedStatus +
  sm :: "('u, 'c) IStateMachine"
  ustate :: 'u
  events :: "event list"

definition emit :: "event \<Rightarrow> ('u, 'c) NativeStateMachine \<Rightarrow> ('u, 'c) NativeStateMachine" where
  "emit e ds = ds\<lparr>events := events ds @ [e]\<rparr>"

definition NewNativeStateMachine :: "('u, 'c) IStateMachine \<Rightarrow> 'u \<Rightarrow> ('u, 'c) NativeStateMachine" where
  "NewNativeStateMachine a u =
     \<lparr>readyToDestroy = False, destroyed = False, offloadedFromNodeHost = False,
      offloadedFromStepWorker = False, offloadedFromCommitWorker = False,
      offloadedFromSnapshotWorker = False, loadedByStepWorker = False,
      loadedByCommitWorker = False, loadedBySnapshotWorker = False,
      sm = a, ustate = u, events = []\<rparr>"

definition closeStateMachine :: "('u, 'c) NativeStateMachine \<Rightarrow> ('u, 'c) NativeStateMachine" where
  "closeStateMachine ds = emit EvClose (ds\<lparr>ustate := IStateMachine_Close (sm ds) (ustate ds)\<rparr>)"



definition ConcurrentSnapshot :: "('u, 'c) NativeStateMachine \<Rightarrow> bool" where
  "ConcurrentSnapshot ds = IStateMachine_ConcurrentSnapshot (sm ds)"

text \<open>
  \<open>Update\<close>. The session is a pointer, nil or not; the session it points to is returned
  as the call leaves it.
\<close>

definition Update ::
  "('u, 'c) NativeStateMachine \<Rightarrow> Session option \<Rightarrow> uint64 \<Rightarrow> uint64 \<Rightarrow> uint64 \<Rightarrow> bytes \<Rightarrow>
     panic + (uint64 \<times> Session option \<times> ('u, 'c) NativeStateMachine)" where
  "Update ds session seriesID index trm data =
     (if (case session of None \<Rightarrow> False | Some s \<Rightarrow> snd (getResponse s seriesID))
      then Inl (Panic ''already has response in session'')
      else
        let entries = [\<lparr>Index = index, Cmd = data, Result = 0\<rparr>] in
        case IStateMachine_Update (sm ds) (ustate ds) entries of
          Inl p \<Rightarrow> Inl p
        | Inr (rs, u') \<Rightarrow>
            let ds1 = emit (EvUpdate entries) (ds\<lparr>ustate := u'\<rparr>) in
            if length rs \<noteq> 1 then Inl (Panic ''len(results) != 1'')
            else
              (case session of
                 None \<Rightarrow> Inr (Result (rs ! 0), None, ds1)
               | Some s \<Rightarrow>
                   (case addResponse s seriesID (Result (rs ! 0)) of
                      Inl p \<Rightarrow> Inl p
                    | Inr s' \<Rightarrow> Inr (Result (rs ! 0), Some s', ds1))))"

definition BatchedUpdate ::
  "('u, 'c) NativeStateMachine \<Rightarrow> Entry list \<Rightarrow> panic + (Entry list \<times> ('u, 'c) NativeStateMachine)" where
  "BatchedUpdate ds ents =
     (let il = length ents in
      case IStateMachine_Update (sm ds) (ustate ds) ents of
        Inl p \<Rightarrow> Inl p
      | Inr (rs, u') \<Rightarrow>
          if length rs \<noteq> il then Inl (Panic ''unexpected result length'')
          else Inr (rs, emit (EvUpdate ents) (ds\<lparr>ustate := u'\<rparr>)))"

definition Lookup ::
  "('u, 'c) NativeStateMachine \<Rightarrow> bytes \<Rightarrow> (bytes \<times> go_error option) \<times> ('u, 'c) NativeStateMachine" where
  "Lookup ds data =
     (let ds1 = emit EvRLock ds in
      if Destroyed ds1 then (([], Some ErrClusterClosed), emit EvRUnlock ds1)
      else
        let ((v, err), u') = IStateMachine_Lookup (sm ds1) (ustate ds1) data;
            ds2 = emit (EvLookup data) (ds1\<lparr>ustate := u'\<rparr>)
        in ((v, err), emit EvRUnlock ds2))"

definition PrepareSnapshot ::
  "('u, 'c) NativeStateMachine \<Rightarrow>
     panic + (('c option \<times> go_error option) \<times> ('u, 'c) NativeStateMachine)" where
  "PrepareSnapshot ds =
     (if \<not> ConcurrentSnapshot ds
      then Inl (Panic ''state machine is not capable of concurrent snapshotting'')
      else
        case IStateMachine_PrepareSnapshot (sm ds) (ustate ds) of
          Inl p \<Rightarrow> Inl p
        | Inr (r, u') \<Rightarrow> Inr (r, emit EvPrepareSnapshot (ds\<lparr>ustate := u'\<rparr>)))"

text \<open>
  \<open>SnapshotWriter\<close> is not among the sources: what its \<open>Write\<close> and \<open>SaveHeader\<close>
  return is a parameter. \<open>SnapshotHeaderSize\<close>, a constant declared with it, is a
  parameter too.
\<close>

record SnapshotWriter =
  w_Write :: "bytes \<Rightarrow> int \<times> go_error option"
  w_SaveHeader :: "uint64 \<Rightarrow> uint64 \<Rightarrow> go_error option"

definition SaveSnapshot ::
  "uint64 \<Rightarrow> ('u, 'c) NativeStateMachine \<Rightarrow> 'c option \<Rightarrow> SnapshotWriter \<Rightarrow> bytes \<Rightarrow>
     panic + ((uint64 \<times> go_error option) \<times> ('u, 'c) NativeStateMachine)" where
  "SaveSnapshot SnapshotHeaderSize ds ssctx writer session =
     (let (n, err) = w_Write writer session;
          ds1 = emit (EvWrite session) ds
      in
      if err \<noteq> None then Inr ((0, err), ds1)
      else if n \<noteq> int (length session) then Inr ((0, Some ErrShortWrite), ds1)
      else
        let smsz = (of_nat (length session) :: uint64) in
        case IStateMachine_SaveSnapshot (sm ds1) (ustate ds1) ssctx of
          Inl p \<Rightarrow> Inl p
        | Inr ((sz, err), u') \<Rightarrow>
            let ds2 = emit EvSaveSnapshot (ds1\<lparr>ustate := u'\<rparr>) in
            if err \<noteq> None then Inr ((0, err), ds2)
            else
              let err = w_SaveHeader writer smsz sz;
                  ds3 = emit (EvSaveHeader smsz sz) ds2
              in
              if err \<noteq> None then Inr ((0, err), ds3)
              else Inr ((sz + smsz + SnapshotHeaderSize, None), ds3))"

text \<open>
  \<open>SnapshotReader\<close> is not among the sources either: what its methods return is a
  parameter. \<open>ValidateHeader\<close> and \<open>ValidatePayload\<close> return nothing; they can only
  refuse a snapshot by a panic, so \<open>False\<close> stands for the call that panics. \<open>'h\<close> is
  the type of a header. \<open>NewSnapshotReader\<close> and the session store's \<open>load\<close> are
  parameters of \<open>RecoverFromSnapshot\<close>.
\<close>

record 'h SnapshotReader =
  r_GetHeader :: "'h \<times> go_error option"
  r_ValidateHeader :: "'h \<Rightarrow> bool"
  r_ValidatePayload :: "'h \<Rightarrow> bool"
  r_Close :: "go_error option"

text \<open>
  Lines 428 to 441, the part of \<open>RecoverFromSnapshot\<close> that runs with the reader open:
  the value it leaves in the named result \<open>err\<close> when it returns, or a panic.
\<close>

definition RecoverFromSnapshot_opened ::
  "('u, 'c) NativeStateMachine \<Rightarrow> 'h SnapshotReader \<Rightarrow> ('h SnapshotReader \<Rightarrow> go_error option) \<Rightarrow>
     (panic + go_error option) \<times> ('u, 'c) NativeStateMachine" where
  "RecoverFromSnapshot_opened ds reader sessions_load =
     (let (header, err) = r_GetHeader reader;
          ds1 = emit EvGetHeader ds
      in
      if err \<noteq> None then (Inr err, ds1)
      else
        let ds2 = emit EvValidateHeader ds1 in
        if \<not> r_ValidateHeader reader header then (Inl (Panic ''invalid header''), ds2)
        else
          let err = sessions_load reader;
              ds3 = emit EvSessionsLoad ds2
          in
          if err \<noteq> None then (Inr err, ds3)
          else
            let (err, u') = IStateMachine_RecoverFromSnapshot (sm ds3) (ustate ds3);
                ds4 = emit EvRecoverFromSnapshot (ds3\<lparr>ustate := u'\<rparr>)
            in
            if err \<noteq> None then (Inr err, ds4)
            else
              let ds5 = emit EvValidatePayload ds4 in
              if \<not> r_ValidatePayload reader header
              then (Inl (Panic ''corrupted snapshot payload''), ds5)
              else (Inr err, ds5))"

text \<open>
  The whole method. Once the reader is open, the deferred function runs on every way
  out: it calls \<open>reader.Close()\<close> and assigns what that returns to the named result
  \<open>err\<close>; a panic goes on after it.
\<close>

definition RecoverFromSnapshot ::
  "('u, 'c) NativeStateMachine \<Rightarrow> (string \<Rightarrow> 'h SnapshotReader \<times> go_error option) \<Rightarrow>
     ('h SnapshotReader \<Rightarrow> go_error option) \<Rightarrow> string \<Rightarrow>
     (panic + go_error option) \<times> ('u, 'c) NativeStateMachine" where
  "RecoverFromSnapshot ds NewSnapshotReader sessions_load fp =
     (let (reader, err) = NewSnapshotReader fp;
          ds0 = emit (EvNewSnapshotReader fp) ds
      in
      if err \<noteq> None then (Inr err, ds0)
      else
        let (r, ds1) = RecoverFromSnapshot_opened ds0 reader sessions_load;
            ds2 = emit EvReaderClose ds1
        in
        case r of
          Inl p \<Rightarrow> (Inl p, ds2)
        | Inr err \<Rightarrow> (Inr (r_Close reader), ds2))"




definition closes :: "('u, 'c) NativeStateMachine \<Rightarrow> nat" where
  "closes ds = length (filter (\<lambda>e. e = EvClose) (events ds))"

section \<open>Auxiliary predicates\<close>

text \<open>
  What a call of \<open>SetOffloaded\<close> that returns does to each field, written as a relation
  between the status before and after.
\<close>

definition offl_post ::
  "'a OffloadedStatus_scheme \<Rightarrow> From \<Rightarrow> 'a OffloadedStatus_scheme \<Rightarrow> bool" where
  "offl_post st frm st' =
    (let nh = (frm = FromNodeHost) in
     offloadedFromNodeHost st' = (offloadedFromNodeHost st \<or> nh) \<and>
     offloadedFromStepWorker st' =
       (offloadedFromStepWorker st \<or> frm = FromStepWorker \<or> (nh \<and> \<not> loadedByStepWorker st)) \<and>
     offloadedFromCommitWorker st' =
       (offloadedFromCommitWorker st \<or> frm = FromCommitWorker \<or>
        (nh \<and> \<not> loadedByCommitWorker st)) \<and>
     offloadedFromSnapshotWorker st' =
       (offloadedFromSnapshotWorker st \<or> frm = FromSnapshotWorker \<or>
        (nh \<and> \<not> loadedBySnapshotWorker st)) \<and>
     readyToDestroy st' = (readyToDestroy st \<or> all_offloaded st') \<and>
     destroyed st' = destroyed st \<and>
     loadedByStepWorker st' = loadedByStepWorker st \<and>
     loadedByCommitWorker st' = loadedByCommitWorker st \<and>
     loadedBySnapshotWorker st' = loadedBySnapshotWorker st \<and>
     OffloadedStatus.more st' = OffloadedStatus.more st)"

text \<open>The same for a call of \<open>SetLoaded\<close> that returns.\<close>

definition load_post ::
  "'a OffloadedStatus_scheme \<Rightarrow> From \<Rightarrow> 'a OffloadedStatus_scheme \<Rightarrow> bool" where
  "load_post st frm st' =
    (\<not> offloadedFromNodeHost st \<and>
     (frm = FromStepWorker \<or> frm = FromCommitWorker \<or> frm = FromSnapshotWorker) \<and>
     offloadedFromNodeHost st' = offloadedFromNodeHost st \<and>
     offloadedFromStepWorker st' = offloadedFromStepWorker st \<and>
     offloadedFromCommitWorker st' = offloadedFromCommitWorker st \<and>
     offloadedFromSnapshotWorker st' = offloadedFromSnapshotWorker st \<and>
     readyToDestroy st' = readyToDestroy st \<and>
     destroyed st' = destroyed st \<and>
     loadedByStepWorker st' = (loadedByStepWorker st \<or> frm = FromStepWorker) \<and>
     loadedByCommitWorker st' = (loadedByCommitWorker st \<or> frm = FromCommitWorker) \<and>
     loadedBySnapshotWorker st' = (loadedBySnapshotWorker st \<or> frm = FromSnapshotWorker) \<and>
     OffloadedStatus.more st' = OffloadedStatus.more st)"

text \<open>
  The invariant of a status that started as the zero value: \<open>readyToDestroy\<close> is the
  conjunction of the four offloaded-from flags, and once node-host has offloaded, every
  component is loaded or offloaded.
\<close>

definition status_inv :: "'a OffloadedStatus_scheme \<Rightarrow> bool" where
  "status_inv st =
     ((readyToDestroy st = all_offloaded st) \<and>
      (\<not> offloadedFromNodeHost st \<or>
         (loadedByStepWorker st \<or> offloadedFromStepWorker st) \<and>
         (loadedByCommitWorker st \<or> offloadedFromCommitWorker st) \<and>
         (loadedBySnapshotWorker st \<or> offloadedFromSnapshotWorker st)))"

text \<open>The offloaded-from flag of the component \<open>frm\<close>.\<close>

definition offloaded_from :: "'a OffloadedStatus_scheme \<Rightarrow> From \<Rightarrow> bool" where
  "offloaded_from st frm =
     (frm = FromNodeHost \<and> offloadedFromNodeHost st \<or>
      frm = FromStepWorker \<and> offloadedFromStepWorker st \<or>
      frm = FromCommitWorker \<and> offloadedFromCommitWorker st \<or>
      frm = FromSnapshotWorker \<and> offloadedFromSnapshotWorker st)"

text \<open>Every flag that is true in \<open>st\<close> is true in \<open>st'\<close>.\<close>

definition flags_kept :: "'a OffloadedStatus_scheme \<Rightarrow> 'a OffloadedStatus_scheme \<Rightarrow> bool" where
  "flags_kept st st' =
     ((readyToDestroy st \<longrightarrow> readyToDestroy st') \<and>
      (destroyed st \<longrightarrow> destroyed st') \<and>
      (offloadedFromNodeHost st \<longrightarrow> offloadedFromNodeHost st') \<and>
      (offloadedFromStepWorker st \<longrightarrow> offloadedFromStepWorker st') \<and>
      (offloadedFromCommitWorker st \<longrightarrow> offloadedFromCommitWorker st') \<and>
      (offloadedFromSnapshotWorker st \<longrightarrow> offloadedFromSnapshotWorker st') \<and>
      (loadedByStepWorker st \<longrightarrow> loadedByStepWorker st') \<and>
      (loadedByCommitWorker st \<longrightarrow> loadedByCommitWorker st') \<and>
      (loadedBySnapshotWorker st \<longrightarrow> loadedBySnapshotWorker st'))"


section \<open>Concrete values for the examples\<close>

definition demo_status :: OffloadedStatus where
  "demo_status =
     \<lparr>readyToDestroy = False, destroyed = True, offloadedFromNodeHost = True,
      offloadedFromStepWorker = False, offloadedFromCommitWorker = True,
      offloadedFromSnapshotWorker = True, loadedByStepWorker = True,
      loadedByCommitWorker = False, loadedBySnapshotWorker = False\<rparr>"

definition demo_session :: Session where
  "demo_session = \<lparr>clientID = 7, respondedTo = 3, results = [5 \<mapsto> 42]\<rparr>"

definition demo_user :: "nat UserStateMachine" where
  "demo_user =
     \<lparr>u_Update = (\<lambda>u cmd. (of_nat (length cmd), Suc u)),
      u_Lookup = (\<lambda>u q. (rev q, u)),
      u_SaveSnapshot = (\<lambda>u. ((16, None), u)),
      u_RecoverFromSnapshot = (\<lambda>u. (None, u)),
      u_Close = (\<lambda>u. 0)\<rparr>"

definition demo_concurrent :: "(nat, nat) UserConcurrentStateMachine" where
  "demo_concurrent =
     \<lparr>c_Update = (\<lambda>u es. (map (\<lambda>e. e\<lparr>Result := of_nat (length (Cmd e))\<rparr>) es, u + length es)),
      c_Lookup = (\<lambda>u q. ((rev q, None), u)),
      c_PrepareSnapshot = (\<lambda>u. ((Some u, None), u)),
      c_SaveSnapshot = (\<lambda>u ctx. ((16, None), u)),
      c_RecoverFromSnapshot = (\<lambda>u. (None, u)),
      c_Close = (\<lambda>u. 0)\<rparr>"

text \<open>A user state machine that breaks its contract: Update returns an empty batch.\<close>

definition bad_concurrent :: "(nat, nat) UserConcurrentStateMachine" where
  "bad_concurrent = demo_concurrent\<lparr>c_Update := (\<lambda>u es. ([], u))\<rparr>"

definition demo_ds :: "(nat, nat) NativeStateMachine" where
  "demo_ds = NewNativeStateMachine (Regular demo_user) 4"

definition bad_ds :: "(nat, nat) NativeStateMachine" where
  "bad_ds = NewNativeStateMachine (Concurrent bad_concurrent) 4"

definition demo_writer :: SnapshotWriter where
  "demo_writer =
     \<lparr>w_Write = (\<lambda>b. (int (length b), None)), w_SaveHeader = (\<lambda>smsz sz. None)\<rparr>"

text \<open>A writer that takes at most two bytes at a time and reports no error.\<close>

definition short_writer :: SnapshotWriter where
  "short_writer = demo_writer\<lparr>w_Write := (\<lambda>b. (int (min 2 (length b)), None))\<rparr>"

definition demo_reader :: "nat SnapshotReader" where
  "demo_reader =
     \<lparr>r_GetHeader = (0, None), r_ValidateHeader = (\<lambda>h. True),
      r_ValidatePayload = (\<lambda>h. True), r_Close = None\<rparr>"


section \<open>Properties of OffloadedStatus\<close>

lemmas From_defs = FromNodeHost_def FromStepWorker_def FromCommitWorker_def FromSnapshotWorker_def

lemma SetOffloaded_NodeHost:
  "case SetOffloaded st FromNodeHost of Inl p \<Rightarrow> False | Inr st' \<Rightarrow> offl_post st FromNodeHost st'"
  by (auto simp: SetOffloaded_def Let_def offl_post_def all_offloaded_def From_defs)

lemma SetOffloaded_StepWorker:
  "case SetOffloaded st FromStepWorker of Inl p \<Rightarrow> False | Inr st' \<Rightarrow> offl_post st FromStepWorker st'"
  by (auto simp: SetOffloaded_def Let_def offl_post_def all_offloaded_def From_defs)

lemma SetOffloaded_CommitWorker:
  "case SetOffloaded st FromCommitWorker of Inl p \<Rightarrow> False | Inr st' \<Rightarrow> offl_post st FromCommitWorker st'"
  by (auto simp: SetOffloaded_def Let_def offl_post_def all_offloaded_def From_defs)

lemma SetOffloaded_SnapshotWorker:
  "case SetOffloaded st FromSnapshotWorker of Inl p \<Rightarrow> False | Inr st' \<Rightarrow> offl_post st FromSnapshotWorker st'"
  by (auto simp: SetOffloaded_def Let_def offl_post_def all_offloaded_def From_defs)

lemma SetOffloaded_cases:
  "SetOffloaded st frm = Inr st' \<Longrightarrow>
     frm = FromNodeHost \<or> frm = FromStepWorker \<or> frm = FromCommitWorker \<or> frm = FromSnapshotWorker"
  unfolding SetOffloaded_def by (cases "frm = FromNodeHost"; cases "frm = FromStepWorker"; cases "frm = FromCommitWorker"; cases "frm = FromSnapshotWorker"; simp)

lemma SetOffloaded_post:
  assumes "SetOffloaded st frm = Inr st'"
  shows "offl_post st frm st'"
proof -
  from SetOffloaded_cases [OF assms] consider
    "frm = FromNodeHost" | "frm = FromStepWorker" | "frm = FromCommitWorker" | "frm = FromSnapshotWorker"
    by blast
  then show ?thesis
  proof cases
    case 1
    with assms SetOffloaded_NodeHost [of st] show ?thesis by simp
  next
    case 2
    with assms SetOffloaded_StepWorker [of st] show ?thesis by simp
  next
    case 3
    with assms SetOffloaded_CommitWorker [of st] show ?thesis by simp
  next
    case 4
    with assms SetOffloaded_SnapshotWorker [of st] show ?thesis by simp
  qed
qed

lemma SetLoaded_cases:
  "SetLoaded st frm = Inr st' \<Longrightarrow>
     frm = FromStepWorker \<or> frm = FromCommitWorker \<or> frm = FromSnapshotWorker"
  unfolding SetLoaded_def
  by (cases "frm = FromNodeHost"; cases "frm = FromStepWorker"; cases "frm = FromCommitWorker";
      cases "frm = FromSnapshotWorker"; cases "offloadedFromNodeHost st"; simp)

lemma SetLoaded_StepWorker:
  "case SetLoaded st FromStepWorker of Inl p \<Rightarrow> offloadedFromNodeHost st
     | Inr st' \<Rightarrow> load_post st FromStepWorker st'"
  by (auto simp: SetLoaded_def load_post_def From_defs)

lemma SetLoaded_CommitWorker:
  "case SetLoaded st FromCommitWorker of Inl p \<Rightarrow> offloadedFromNodeHost st
     | Inr st' \<Rightarrow> load_post st FromCommitWorker st'"
  by (auto simp: SetLoaded_def load_post_def From_defs)

lemma SetLoaded_SnapshotWorker:
  "case SetLoaded st FromSnapshotWorker of Inl p \<Rightarrow> offloadedFromNodeHost st
     | Inr st' \<Rightarrow> load_post st FromSnapshotWorker st'"
  by (auto simp: SetLoaded_def load_post_def From_defs)

lemma SetLoaded_post:
  assumes "SetLoaded st frm = Inr st'"
  shows "load_post st frm st'"
proof -
  from SetLoaded_cases [OF assms] consider
    "frm = FromStepWorker" | "frm = FromCommitWorker" | "frm = FromSnapshotWorker"
    by blast
  then show ?thesis
  proof cases
    case 1
    with assms SetLoaded_StepWorker [of st] show ?thesis by simp
  next
    case 2
    with assms SetLoaded_CommitWorker [of st] show ?thesis by simp
  next
    case 3
    with assms SetLoaded_SnapshotWorker [of st] show ?thesis by simp
  qed
qed


lemma offl_post_inv: "status_inv st \<Longrightarrow> offl_post st frm st' \<Longrightarrow> status_inv st'"
  unfolding status_inv_def offl_post_def all_offloaded_def Let_def by blast

lemma load_post_inv: "status_inv st \<Longrightarrow> load_post st frm st' \<Longrightarrow> status_inv st'"
  unfolding status_inv_def load_post_def all_offloaded_def by blast

lemma SetDestroyed_inv: "status_inv st \<Longrightarrow> status_inv (SetDestroyed st)"
  by (simp add: SetDestroyed_def status_inv_def all_offloaded_def)

lemma status_step_inv: "status_inv st \<Longrightarrow> status_step st c = Inr st' \<Longrightarrow> status_inv st'"
proof (cases c)
  case (CallSetLoaded frm)
  assume "status_inv st" "status_step st c = Inr st'"
  with CallSetLoaded show ?thesis
    using load_post_inv [OF _ SetLoaded_post] by simp
next
  case (CallSetOffloaded frm)
  assume "status_inv st" "status_step st c = Inr st'"
  with CallSetOffloaded show ?thesis
    using offl_post_inv [OF _ SetOffloaded_post] by simp
next
  case CallSetDestroyed
  assume "status_inv st" "status_step st c = Inr st'"
  with CallSetDestroyed show ?thesis
    using SetDestroyed_inv by auto
qed

lemma status_run_inv: "status_inv st \<Longrightarrow> status_run st cs = Inr st' \<Longrightarrow> status_inv st'"
proof (induction cs arbitrary: st)
  case Nil
  then show ?case by simp
next
  case (Cons c cs)
  then show ?case
    by (cases "status_step st c") (auto dest: status_step_inv)
qed

lemma zero_status_inv: "status_inv zero_status"
  by (simp add: status_inv_def zero_status_def all_offloaded_def)

lemma offl_post_kept: "offl_post st frm st' \<Longrightarrow> flags_kept st st'"
  unfolding offl_post_def flags_kept_def Let_def by blast

lemma load_post_kept: "load_post st frm st' \<Longrightarrow> flags_kept st st'"
  unfolding load_post_def flags_kept_def by blast

lemma SetDestroyed_kept: "flags_kept st (SetDestroyed st)"
  by (simp add: SetDestroyed_def flags_kept_def)

lemma flags_kept_refl: "flags_kept st st"
  by (simp add: flags_kept_def)

lemma flags_kept_trans: "flags_kept a b \<Longrightarrow> flags_kept b c \<Longrightarrow> flags_kept a c"
  unfolding flags_kept_def by blast

lemma status_step_kept: "status_step st c = Inr st' \<Longrightarrow> flags_kept st st'"
proof (cases c)
  case (CallSetLoaded frm)
  assume "status_step st c = Inr st'"
  with CallSetLoaded show ?thesis
    using load_post_kept [OF SetLoaded_post] by simp
next
  case (CallSetOffloaded frm)
  assume "status_step st c = Inr st'"
  with CallSetOffloaded show ?thesis
    using offl_post_kept [OF SetOffloaded_post] by simp
next
  case CallSetDestroyed
  assume "status_step st c = Inr st'"
  with CallSetDestroyed show ?thesis
    using SetDestroyed_kept by auto
qed

lemma status_run_kept: "status_run st cs = Inr st' \<Longrightarrow> flags_kept st st'"
proof (induction cs arbitrary: st)
  case Nil
  then show ?case by (simp add: flags_kept_refl)
next
  case (Cons c cs)
  show ?case
  proof (cases "status_step st c")
    case (Inl p)
    with Cons.prems show ?thesis by simp
  next
    case (Inr st1)
    with Cons.prems have "status_run st1 cs = Inr st'" by simp
    then have "flags_kept st1 st'" by (rule Cons.IH)
    with status_step_kept [OF Inr] show ?thesis by (rule flags_kept_trans)
  qed
qed

lemma SetOffloaded_returns:
  assumes "frm = FromNodeHost \<or> frm = FromStepWorker \<or> frm = FromCommitWorker \<or>
    frm = FromSnapshotWorker"
  shows "\<exists>st'. SetOffloaded st frm = Inr st'"
  using assms SetOffloaded_NodeHost [of st] SetOffloaded_StepWorker [of st]
    SetOffloaded_CommitWorker [of st] SetOffloaded_SnapshotWorker [of st]
  by (auto split: sum.splits)

lemma offl_post_noop:
  assumes a1: "all_offloaded st \<longrightarrow> readyToDestroy st"
    and a2: "frm = FromNodeHost \<longrightarrow>
         (loadedByStepWorker st \<or> offloadedFromStepWorker st) \<and>
         (loadedByCommitWorker st \<or> offloadedFromCommitWorker st) \<and>
         (loadedBySnapshotWorker st \<or> offloadedFromSnapshotWorker st)"
    and a3: "offloaded_from st frm"
    and post: "offl_post st frm st'"
  shows "st' = st"
proof -
  note defs = offl_post_def all_offloaded_def Let_def From_defs
  have flags: "offloadedFromNodeHost st' = offloadedFromNodeHost st \<and>
      offloadedFromStepWorker st' = offloadedFromStepWorker st \<and>
      offloadedFromCommitWorker st' = offloadedFromCommitWorker st \<and>
      offloadedFromSnapshotWorker st' = offloadedFromSnapshotWorker st \<and>
      readyToDestroy st' = readyToDestroy st"
    using a3 unfolding offloaded_from_def
  proof (elim disjE conjE)
    assume "frm = FromNodeHost" "offloadedFromNodeHost st"
    with a1 a2 post show ?thesis by (auto simp: defs)
  next
    assume "frm = FromStepWorker" "offloadedFromStepWorker st"
    with a1 post show ?thesis by (auto simp: defs)
  next
    assume "frm = FromCommitWorker" "offloadedFromCommitWorker st"
    with a1 post show ?thesis by (auto simp: defs)
  next
    assume "frm = FromSnapshotWorker" "offloadedFromSnapshotWorker st"
    with a1 post show ?thesis by (auto simp: defs)
  qed
  have rest: "destroyed st' = destroyed st" "loadedByStepWorker st' = loadedByStepWorker st"
    "loadedByCommitWorker st' = loadedByCommitWorker st"
    "loadedBySnapshotWorker st' = loadedBySnapshotWorker st"
    "OffloadedStatus.more st' = OffloadedStatus.more st"
    using post unfolding offl_post_def Let_def by simp_all
  show ?thesis
    using flags rest by (simp add: OffloadedStatus.equality)
qed

lemma offloaded_from_valid:
  "offloaded_from st frm \<Longrightarrow>
     frm = FromNodeHost \<or> frm = FromStepWorker \<or> frm = FromCommitWorker \<or> frm = FromSnapshotWorker"
  unfolding offloaded_from_def by blast

lemma SetOffloaded_noop:
  assumes a1: "all_offloaded st \<longrightarrow> readyToDestroy st"
    and a2: "frm = FromNodeHost \<longrightarrow>
         (loadedByStepWorker st \<or> offloadedFromStepWorker st) \<and>
         (loadedByCommitWorker st \<or> offloadedFromCommitWorker st) \<and>
         (loadedBySnapshotWorker st \<or> offloadedFromSnapshotWorker st)"
    and a3: "offloaded_from st frm"
  shows "SetOffloaded st frm = Inr st"
proof -
  from SetOffloaded_returns [OF offloaded_from_valid [OF a3]]
  obtain st' where r: "SetOffloaded st frm = Inr st'" by blast
  from offl_post_noop [OF a1 a2 a3 SetOffloaded_post [OF r]] r show ?thesis by simp
qed

lemma SetOffloaded_noop_inv:
  assumes "status_inv st" and "offloaded_from st frm"
  shows "SetOffloaded st frm = Inr st"
proof (rule SetOffloaded_noop)
  show "all_offloaded st \<longrightarrow> readyToDestroy st"
    using assms(1) by (simp add: status_inv_def)
  show "frm = FromNodeHost \<longrightarrow>
         (loadedByStepWorker st \<or> offloadedFromStepWorker st) \<and>
         (loadedByCommitWorker st \<or> offloadedFromCommitWorker st) \<and>
         (loadedBySnapshotWorker st \<or> offloadedFromSnapshotWorker st)"
    using assms unfolding status_inv_def offloaded_from_def by (auto simp: From_defs)
  show "offloaded_from st frm" by fact
qed

lemma SetOffloaded_idem:
  assumes r: "SetOffloaded st frm = Inr st'"
  shows "SetOffloaded st' frm = Inr st'"
proof (rule SetOffloaded_noop)
  note post = SetOffloaded_post [OF r]
  show "all_offloaded st' \<longrightarrow> readyToDestroy st'"
    using post unfolding offl_post_def Let_def by blast
  show "frm = FromNodeHost \<longrightarrow>
         (loadedByStepWorker st' \<or> offloadedFromStepWorker st') \<and>
         (loadedByCommitWorker st' \<or> offloadedFromCommitWorker st') \<and>
         (loadedBySnapshotWorker st' \<or> offloadedFromSnapshotWorker st')"
    using post unfolding offl_post_def Let_def by blast
  show "offloaded_from st' frm"
    using post SetOffloaded_cases [OF r] unfolding offl_post_def Let_def offloaded_from_def
    by blast
qed

section \<open>Properties of Loaded and Offloaded\<close>




lemma emit_flags [simp]:
  "readyToDestroy (emit e ds) = readyToDestroy ds"
  "destroyed (emit e ds) = destroyed ds"
  "all_offloaded (emit e ds) = all_offloaded ds"
  "status_inv (emit e ds) = status_inv ds"
  "events (emit e ds) = events ds @ [e]"
  "sm (emit e ds) = sm ds"
  "ustate (emit e ds) = ustate ds"
  by (simp_all add: emit_def all_offloaded_def status_inv_def)

lemma closes_emit [simp]: "closes (emit e ds) = closes ds + (if e = EvClose then 1 else 0)"
  by (simp add: closes_def)

lemma close_flags [simp]:
  "readyToDestroy (closeStateMachine ds) = readyToDestroy ds"
  "destroyed (closeStateMachine ds) = destroyed ds"
  "all_offloaded (closeStateMachine ds) = all_offloaded ds"
  "status_inv (closeStateMachine ds) = status_inv ds"
  "closes (closeStateMachine ds) = Suc (closes ds)"
  "events (closeStateMachine ds) = events ds @ [EvClose]"
  by (simp_all add: closeStateMachine_def all_offloaded_def status_inv_def closes_def emit_def)

lemma SetDestroyed_flags [simp]:
  "readyToDestroy (SetDestroyed ds) = readyToDestroy ds"
  "destroyed (SetDestroyed ds) = True"
  "all_offloaded (SetDestroyed ds) = all_offloaded ds"
  "closes (SetDestroyed ds) = closes ds"
  "events (SetDestroyed ds) = events ds"
  by (simp_all add: SetDestroyed_def all_offloaded_def closes_def)









section \<open>Claims about OffloadedStatus\<close>





text \<open>
  Claim C10. Every boolean flag of \<open>OffloadedStatus\<close> is monotone: a flag that is true
  stays true over any sequence of \<open>SetLoaded\<close>, \<open>SetOffloaded\<close> and \<open>SetDestroyed\<close>
  calls that returns. Calling \<open>SetOffloaded\<close> for a component whose offloaded-from flag
  is already set, on a status reached from the zero value, returns the status
  unchanged; and from any status at all, a second \<open>SetOffloaded\<close> for the same
  component changes nothing.
\<close>

theorem flags_monotone:
  "(status_run st cs = Inr st' \<longrightarrow> flags_kept st st') \<and>
   (status_run zero_status cs0 = Inr st0 \<and> offloaded_from st0 frm \<longrightarrow>
      SetOffloaded st0 frm = Inr st0) \<and>
   (SetOffloaded st1 frm1 = Inr st1' \<longrightarrow> SetOffloaded st1' frm1 = Inr st1')"
proof (intro conjI impI)
  assume "status_run st cs = Inr st'"
  then show "flags_kept st st'" by (rule status_run_kept)
next
  assume a: "status_run zero_status cs0 = Inr st0 \<and> offloaded_from st0 frm"
  then have "status_inv st0" using status_run_inv [OF zero_status_inv] by blast
  with a show "SetOffloaded st0 frm = Inr st0" by (simp add: SetOffloaded_noop_inv)
next
  assume "SetOffloaded st1 frm1 = Inr st1'"
  then show "SetOffloaded st1' frm1 = Inr st1'" by (rule SetOffloaded_idem)
qed

lemma demo_run:
  "status_run zero_status
     [CallSetLoaded FromStepWorker, CallSetOffloaded FromNodeHost, CallSetDestroyed] = Inr demo_status"
  by (simp add: SetLoaded_def SetOffloaded_def SetDestroyed_def zero_status_def demo_status_def
      From_defs Let_def)

theorem flags_monotone_witness:
  "status_run zero_status
     [CallSetLoaded FromStepWorker, CallSetOffloaded FromNodeHost, CallSetDestroyed] = Inr demo_status \<and>
   flags_kept zero_status demo_status \<and>
   offloaded_from demo_status FromNodeHost \<and>
   SetOffloaded demo_status FromNodeHost = Inr demo_status \<and>
   SetOffloaded zero_status FromNodeHost = Inr (demo_status\<lparr>destroyed := False, 
      offloadedFromStepWorker := True, loadedByStepWorker := False, readyToDestroy := True\<rparr>)"
  using flags_monotone [of zero_status
      "[CallSetLoaded FromStepWorker, CallSetOffloaded FromNodeHost, CallSetDestroyed]"
      demo_status
      "[CallSetLoaded FromStepWorker, CallSetOffloaded FromNodeHost, CallSetDestroyed]"
      demo_status FromNodeHost zero_status FromNodeHost 
      "demo_status\<lparr>destroyed := False, 
      offloadedFromStepWorker := True, loadedByStepWorker := False, readyToDestroy := True\<rparr>"]
    demo_run
  by (simp add: offloaded_from_def demo_status_def SetOffloaded_def zero_status_def From_defs Let_def)

text \<open>
  Claim C9. Once \<open>offloadedFromNodeHost\<close> is true, it stays true over any later calls,
  and \<open>SetLoaded\<close> from the step worker, the commit worker or the snapshot worker then
  panics. \<open>SetLoaded\<close> with \<open>FromNodeHost\<close> panics in every status.
\<close>

theorem SetLoaded_fatal:
  "(offloadedFromNodeHost st \<and> status_run st cs = Inr st' \<and>
      (frm = FromStepWorker \<or> frm = FromCommitWorker \<or> frm = FromSnapshotWorker) \<longrightarrow>
      SetLoaded st' frm = Inl (Panic ''loaded from %v after offloaded from nodehost'')) \<and>
   SetLoaded st0 FromNodeHost =
     Inl (Panic ''not suppose to get loaded notification from nodehost'')"
proof (intro conjI impI)
  assume a: "offloadedFromNodeHost st \<and> status_run st cs = Inr st' \<and>
      (frm = FromStepWorker \<or> frm = FromCommitWorker \<or> frm = FromSnapshotWorker)"
  then have "flags_kept st st'" using status_run_kept by blast
  with a have "offloadedFromNodeHost st'" by (simp add: flags_kept_def)
  with a show "SetLoaded st' frm = Inl (Panic ''loaded from %v after offloaded from nodehost'')"
    by (simp add: SetLoaded_def)
next
  show "SetLoaded st0 FromNodeHost =
     Inl (Panic ''not suppose to get loaded notification from nodehost'')"
    by (simp add: SetLoaded_def From_defs)
qed

theorem SetLoaded_fatal_witness:
  "offloadedFromNodeHost demo_status \<and>
   status_run demo_status [CallSetOffloaded FromStepWorker] =
     Inr (demo_status\<lparr>offloadedFromStepWorker := True, readyToDestroy := True\<rparr>) \<and>
   SetLoaded (demo_status\<lparr>offloadedFromStepWorker := True, readyToDestroy := True\<rparr>)
     FromSnapshotWorker = Inl (Panic ''loaded from %v after offloaded from nodehost'') \<and>
   SetLoaded zero_status FromNodeHost =
     Inl (Panic ''not suppose to get loaded notification from nodehost'')"
  using SetLoaded_fatal [of demo_status "[CallSetOffloaded FromStepWorker]"
      "demo_status\<lparr>offloadedFromStepWorker := True, readyToDestroy := True\<rparr>"
      FromSnapshotWorker zero_status]
  by (simp add: demo_status_def SetOffloaded_def From_defs Let_def)

section \<open>Claims about sessions and the adapter\<close>

text \<open>
  Claim C4. For a session and a series ID, \<open>UpdateRequired\<close> returns one of three
  outcomes: \<open>(0, true, false)\<close> when the series ID is at or below \<open>respondedTo\<close>;
  otherwise the retained result with \<open>(false, false)\<close> when one is retained for the
  series ID; otherwise \<open>(0, false, true)\<close>.
\<close>

theorem UpdateRequired_outcomes:
  "(sid \<le> respondedTo s \<longrightarrow> UpdateRequired (Some s) sid = Inr (0, True, False)) \<and>
   (\<not> sid \<le> respondedTo s \<and> results s sid = Some v \<longrightarrow>
      UpdateRequired (Some s) sid = Inr (v, False, False)) \<and>
   (\<not> sid \<le> respondedTo s \<and> results s sid = None \<longrightarrow>
      UpdateRequired (Some s) sid = Inr (0, False, True))"
  by (simp add: UpdateRequired_def hasResponded_def getResponse_def)

theorem UpdateRequired_outcomes_witness:
  "UpdateRequired (Some demo_session) 2 = Inr (0, True, False) \<and>
   UpdateRequired (Some demo_session) 5 = Inr (42, False, False) \<and>
   UpdateRequired (Some demo_session) 6 = Inr (0, False, True) \<and>
   (2 :: uint64) \<le> respondedTo demo_session \<and>
   \<not> (5 :: uint64) \<le> respondedTo demo_session \<and> results demo_session 5 = Some 42 \<and>
   \<not> (6 :: uint64) \<le> respondedTo demo_session \<and> results demo_session 6 = None"
  using UpdateRequired_outcomes [of 2 demo_session 42]
    UpdateRequired_outcomes [of 5 demo_session 42]
    UpdateRequired_outcomes [of 6 demo_session 42]
  by (simp add: demo_session_def)

text \<open>
  Claim C7. \<open>RegularStateMachine.Update\<close> panics unless the batch has exactly one entry;
  with exactly one entry it applies the entry's command to the user state machine and
  returns the batch with the result stored in that entry.
\<close>

theorem RegularStateMachine_Update_single:
  "(length entries \<noteq> 1 \<longrightarrow>
      RegularStateMachine_Update m u entries = Inl (Panic ''len(entries) != 1'')) \<and>
   (entries = [e] \<longrightarrow>
      RegularStateMachine_Update m u entries =
        Inr ([e\<lparr>Result := fst (u_Update m u (Cmd e))\<rparr>], snd (u_Update m u (Cmd e))))"
  by (simp add: RegularStateMachine_Update_def split_beta)

theorem RegularStateMachine_Update_single_witness:
  "RegularStateMachine_Update demo_user 4 [] = Inl (Panic ''len(entries) != 1'') \<and>
   RegularStateMachine_Update demo_user 4
     [\<lparr>Index = 1, Cmd = [1, 2], Result = 0\<rparr>, \<lparr>Index = 2, Cmd = [], Result = 0\<rparr>] =
     Inl (Panic ''len(entries) != 1'') \<and>
   RegularStateMachine_Update demo_user 4 [\<lparr>Index = 9, Cmd = [1, 2, 3], Result = 0\<rparr>] =
     Inr ([\<lparr>Index = 9, Cmd = [1, 2, 3], Result = 3\<rparr>], 5)"
  using RegularStateMachine_Update_single [of "[]" demo_user 4 undefined]
    RegularStateMachine_Update_single [of
      "[\<lparr>Index = 1, Cmd = [1, 2], Result = 0\<rparr>, \<lparr>Index = 2, Cmd = [], Result = 0\<rparr>]"
      demo_user 4 undefined]
    RegularStateMachine_Update_single [of "[\<lparr>Index = 9, Cmd = [1, 2, 3], Result = 0\<rparr>]"
      demo_user 4 "\<lparr>Index = 9, Cmd = [1, 2, 3], Result = 0\<rparr>"]
  by (simp add: demo_user_def)

text \<open>
  Claim C8. On the sequential adapter \<open>PrepareSnapshot\<close> panics, and \<open>SaveSnapshot\<close>
  with a context that is not nil panics. \<open>PrepareSnapshot\<close> of the managed state machine
  panics when the adapter is not capable of concurrent snapshots, which is the case
  for the sequential adapter.
\<close>

theorem sequential_snapshot_fatal:
  "RegularStateMachine_PrepareSnapshot m u =
     Inl (Panic ''PrepareSnapshot called on RegularStateMachine'') \<and>
   (ctx \<noteq> None \<longrightarrow> RegularStateMachine_SaveSnapshot m u ctx = Inl (Panic ''ctx is not nil'')) \<and>
   (\<not> ConcurrentSnapshot ds \<longrightarrow>
      PrepareSnapshot ds =
        Inl (Panic ''state machine is not capable of concurrent snapshotting'')) \<and>
   (sm ds = Regular m' \<longrightarrow>
      \<not> ConcurrentSnapshot ds \<and>
      PrepareSnapshot ds =
        Inl (Panic ''state machine is not capable of concurrent snapshotting''))"
  by (simp add: RegularStateMachine_PrepareSnapshot_def RegularStateMachine_SaveSnapshot_def
      PrepareSnapshot_def ConcurrentSnapshot_def RegularStateMachine_ConcurrentSnapshot_def)

theorem sequential_snapshot_fatal_witness:
  "RegularStateMachine_SaveSnapshot demo_user 4 (Some (1 :: nat)) = Inl (Panic ''ctx is not nil'') \<and>
   \<not> ConcurrentSnapshot (NewNativeStateMachine (Regular demo_user :: (nat, nat) IStateMachine) 4) \<and>
   PrepareSnapshot (NewNativeStateMachine (Regular demo_user :: (nat, nat) IStateMachine) 4) =
     Inl (Panic ''state machine is not capable of concurrent snapshotting'')"
proof -
  have c: "Some (1 :: nat) \<noteq> None" by simp
  have r: "sm (NewNativeStateMachine (Regular demo_user :: (nat, nat) IStateMachine) 4) =
      Regular demo_user"
    by (simp add: NewNativeStateMachine_def)
  from sequential_snapshot_fatal [of demo_user 4 "Some (1 :: nat)"
      "NewNativeStateMachine (Regular demo_user :: (nat, nat) IStateMachine) 4" demo_user] c r
  show ?thesis by blast
qed

section \<open>Claims about the managed state machine\<close>

text \<open>
  Claim C5. \<open>Lookup\<close> on a managed state machine whose \<open>destroyed\<close> flag is set returns
  \<open>ErrClusterClosed\<close>; it takes and releases the read lock and makes no call on the
  adapter, whose state is left as it was. On an instance that is not destroyed it
  calls the adapter's \<open>Lookup\<close> between taking and releasing the read lock and returns
  what the adapter returns.
\<close>

theorem Lookup_destroyed_guard:
  "(destroyed ds \<longrightarrow>
      Lookup ds q =
        (([], Some ErrClusterClosed), ds\<lparr>events := events ds @ [EvRLock, EvRUnlock]\<rparr>)) \<and>
   (\<not> destroyed ds \<longrightarrow>
      Lookup ds q =
        (fst (IStateMachine_Lookup (sm ds) (ustate ds) q),
         ds\<lparr>ustate := snd (IStateMachine_Lookup (sm ds) (ustate ds) q),
            events := events ds @ [EvRLock, EvLookup q, EvRUnlock]\<rparr>))"
  by (simp add: Lookup_def Destroyed_def emit_def split_beta)

theorem Lookup_destroyed_guard_witness:
  "destroyed (demo_ds\<lparr>destroyed := True\<rparr>) \<and>
   Lookup (demo_ds\<lparr>destroyed := True\<rparr>) [1, 2] =
     (([], Some ErrClusterClosed), demo_ds\<lparr>destroyed := True, events := [EvRLock, EvRUnlock]\<rparr>) \<and>
   \<not> destroyed demo_ds \<and>
   Lookup demo_ds [1, 2] =
     (([2, 1], None), demo_ds\<lparr>events := [EvRLock, EvLookup [1, 2], EvRUnlock]\<rparr>)"
  using Lookup_destroyed_guard [of "demo_ds\<lparr>destroyed := True\<rparr>" "[1, 2]"]
    Lookup_destroyed_guard [of demo_ds "[1, 2]"]
  by (simp add: demo_ds_def NewNativeStateMachine_def demo_user_def
      RegularStateMachine_Lookup_def)

lemma unat_sum3:
  fixes sz H :: uint64
  assumes "n + unat sz + unat H < 2 ^ 64"
  shows "unat (sz + of_nat n + H) = n + unat sz + unat H"
  using assms by (simp add: unat_word_ariths unat_of_nat)

lemma SaveSnapshot_ok:
  assumes "w_Write writer session = (int (length session), None)"
    and "IStateMachine_SaveSnapshot (sm ds) (ustate ds) ssctx = Inr ((sz, None), u')"
    and "w_SaveHeader writer (of_nat (length session)) sz = None"
  shows "SaveSnapshot H ds ssctx writer session =
      Inr ((sz + of_nat (length session) + H, None),
           ds\<lparr>ustate := u',
              events := events ds @
                [EvWrite session, EvSaveSnapshot, EvSaveHeader (of_nat (length session)) sz]\<rparr>)"
  using assms by (simp add: SaveSnapshot_def emit_def Let_def)

lemma SaveSnapshot_short:
  assumes "w_Write writer session = (n, None)" and "n \<noteq> int (length session)"
  shows "SaveSnapshot H ds ssctx writer session =
      Inr ((0, Some ErrShortWrite), ds\<lparr>events := events ds @ [EvWrite session]\<rparr>)"
  using assms by (simp add: SaveSnapshot_def emit_def Let_def)

lemma SaveSnapshot_adapter_error:
  assumes "w_Write writer session = (int (length session), None)"
    and "IStateMachine_SaveSnapshot (sm ds) (ustate ds) ssctx = Inr ((sz, Some e), u')"
  shows "SaveSnapshot H ds ssctx writer session =
      Inr ((0, Some e),
           ds\<lparr>ustate := u', events := events ds @ [EvWrite session, EvSaveSnapshot]\<rparr>)"
  using assms by (simp add: SaveSnapshot_def emit_def Let_def)

text \<open>
  Claim C6. When no step fails, \<open>SaveSnapshot\<close> writes the session bytes, then has the
  adapter save its payload, then saves the header with the two section sizes, in this
  order, and returns the adapter's size plus the session size plus the header size
  (\<open>uint64\<close> arithmetic, which is the sum of the three numbers when that is below
  \<open>2 ^ 64\<close>). A short write of the session section returns \<open>ErrShortWrite\<close> before the
  adapter is called at all; an error of the adapter's own save is returned as the
  adapter gave it.
\<close>

theorem SaveSnapshot_layout:
  "(w_Write writer session = (int (length session), None) \<and>
    IStateMachine_SaveSnapshot (sm ds) (ustate ds) ssctx = Inr ((sz, None), u') \<and>
    w_SaveHeader writer (of_nat (length session)) sz = None \<longrightarrow>
      SaveSnapshot H ds ssctx writer session =
        Inr ((sz + of_nat (length session) + H, None),
             ds\<lparr>ustate := u',
                events := events ds @
                  [EvWrite session, EvSaveSnapshot, EvSaveHeader (of_nat (length session)) sz]\<rparr>) \<and>
      (length session + unat sz + unat H < 2 ^ 64 \<longrightarrow>
         unat (sz + of_nat (length session) + H) = length session + unat sz + unat H)) \<and>
   (w_Write writer session = (n, None) \<and> n \<noteq> int (length session) \<longrightarrow>
      SaveSnapshot H ds ssctx writer session =
        Inr ((0, Some ErrShortWrite), ds\<lparr>events := events ds @ [EvWrite session]\<rparr>)) \<and>
   (w_Write writer session = (int (length session), None) \<and>
    IStateMachine_SaveSnapshot (sm ds) (ustate ds) ssctx = Inr ((sz, Some e), u') \<longrightarrow>
      SaveSnapshot H ds ssctx writer session =
        Inr ((0, Some e),
             ds\<lparr>ustate := u', events := events ds @ [EvWrite session, EvSaveSnapshot]\<rparr>))"
  using SaveSnapshot_ok [of writer session ds ssctx sz u' H]
    SaveSnapshot_short [of writer session n H ds ssctx]
    SaveSnapshot_adapter_error [of writer session ds ssctx sz e u' H]
    unat_sum3 [of "length session" sz H]
  by blast

theorem SaveSnapshot_layout_witness:
  "SaveSnapshot 1024 demo_ds None demo_writer [1, 2, 3] =
     Inr ((1043, None),
          demo_ds\<lparr>events := [EvWrite [1, 2, 3], EvSaveSnapshot, EvSaveHeader 3 16]\<rparr>) \<and>
   unat (16 + of_nat (length [1, 2, 3 :: 8 word]) + 1024 :: uint64) = 1043 \<and>
   SaveSnapshot 1024 demo_ds None short_writer [1, 2, 3] =
     Inr ((0, Some ErrShortWrite), demo_ds\<lparr>events := [EvWrite [1, 2, 3]]\<rparr>) \<and>
   SaveSnapshot 1024
     (demo_ds\<lparr>sm := Regular (demo_user\<lparr>u_SaveSnapshot := (\<lambda>u. ((0, Some (ErrOther ''disk full'')), u))\<rparr>)\<rparr>)
     None demo_writer [1, 2, 3] =
     Inr ((0, Some (ErrOther ''disk full'')),
          demo_ds\<lparr>sm := Regular (demo_user\<lparr>u_SaveSnapshot := (\<lambda>u. ((0, Some (ErrOther ''disk full'')), u))\<rparr>),
             events := [EvWrite [1, 2, 3], EvSaveSnapshot]\<rparr>)"
proof -
  let ?bad = "demo_ds\<lparr>sm := Regular (demo_user\<lparr>u_SaveSnapshot := (\<lambda>u. ((0, Some (ErrOther ''disk full'')), u))\<rparr>)\<rparr>"
  have w: "w_Write demo_writer [1, 2, 3] = (int (length [1, 2, 3 :: 8 word]), None)"
    "w_SaveHeader demo_writer (of_nat (length [1, 2, 3 :: 8 word])) 16 = None"
    "w_Write short_writer [1, 2, 3] = (2, None)" "(2 :: int) \<noteq> int (length [1, 2, 3 :: 8 word])"
    by (simp_all add: demo_writer_def short_writer_def)
  have a: "IStateMachine_SaveSnapshot (sm demo_ds) (ustate demo_ds) (None :: nat option) =
      Inr ((16, None), 4)"
    "IStateMachine_SaveSnapshot (sm ?bad) (ustate ?bad) (None :: nat option) =
      Inr ((0, Some (ErrOther ''disk full'')), 4)"
    by (simp_all add: demo_ds_def NewNativeStateMachine_def demo_user_def
        RegularStateMachine_SaveSnapshot_def)
  have n: "length [1, 2, 3 :: 8 word] + unat (16 :: uint64) + unat (1024 :: uint64) < 2 ^ 64"
    by simp
  have u: "ustate demo_ds = 4" "events demo_ds = []" "ustate ?bad = 4" "events ?bad = []"
    by (simp_all add: demo_ds_def NewNativeStateMachine_def)
  from SaveSnapshot_layout [of demo_writer "[1, 2, 3]" demo_ds None 16 4 1024 2 undefined]
    SaveSnapshot_layout [of short_writer "[1, 2, 3]" demo_ds None 16 4 1024 2 undefined]
    SaveSnapshot_layout [of demo_writer "[1, 2, 3]" ?bad None 0 4 1024 2 "ErrOther ''disk full''"]
    w a n u
  show ?thesis by simp
qed

lemma Update_retained:
  assumes "session = Some s" and "results s sid = Some v"
  shows "Update ds session sid index trm data = Inl (Panic ''already has response in session'')"
  using assms by (simp add: Update_def getResponse_def)

lemma Update_wrong_length:
  assumes "session = None \<or> session = Some s \<and> results s sid = None"
    and "IStateMachine_Update (sm ds) (ustate ds) [\<lparr>Index = index, Cmd = data, Result = 0\<rparr>] =
      Inr (rs, u')"
    and "length rs \<noteq> 1"
  shows "Update ds session sid index trm data = Inl (Panic ''len(results) != 1'')"
  using assms by (auto simp: Update_def getResponse_def Let_def)

lemma Update_applies:
  assumes "session = None \<or> session = Some s \<and> results s sid = None"
    and "IStateMachine_Update (sm ds) (ustate ds) [\<lparr>Index = index, Cmd = data, Result = 0\<rparr>] =
      Inr ([e], u')"
  shows "Update ds session sid index trm data =
      Inr (Result e,
           map_option (\<lambda>s. s\<lparr>results := (results s)(sid \<mapsto> Result e)\<rparr>) session,
           ds\<lparr>ustate := u',
              events := events ds @ [EvUpdate [\<lparr>Index = index, Cmd = data, Result = 0\<rparr>]]\<rparr>)"
  using assms by (auto simp: Update_def getResponse_def addResponse_def Let_def emit_def)

lemma Update_adapter_Regular:
  "IStateMachine_Update (Regular m) u [\<lparr>Index = index, Cmd = data, Result = 0\<rparr>] =
     Inr ([\<lparr>Index = index, Cmd = data, Result = fst (u_Update m u data)\<rparr>],
          snd (u_Update m u data))"
  by (simp add: RegularStateMachine_Update_def split_beta)

text \<open>
  Claim C3, as amended. \<open>Update\<close> panics when the session is not nil and already
  retains a result for the series ID. Otherwise it passes the single entry made of
  \<open>index\<close> and \<open>data\<close> to the adapter's \<open>Update\<close>; it panics when the adapter returns a
  batch whose length is not one; when the adapter returns one entry, it records that
  entry's result under the series ID if a session was supplied, and returns the
  result. The sequential adapter always returns one entry for this call.
\<close>

theorem Update_amended:
  "(session = Some s \<and> results s sid = Some v \<longrightarrow>
      Update ds session sid index trm data =
        Inl (Panic ''already has response in session'')) \<and>
   ((session = None \<or> session = Some s \<and> results s sid = None) \<and>
    IStateMachine_Update (sm ds) (ustate ds) [\<lparr>Index = index, Cmd = data, Result = 0\<rparr>] =
      Inr (rs, u') \<and> length rs \<noteq> 1 \<longrightarrow>
      Update ds session sid index trm data = Inl (Panic ''len(results) != 1'')) \<and>
   ((session = None \<or> session = Some s \<and> results s sid = None) \<and>
    IStateMachine_Update (sm ds) (ustate ds) [\<lparr>Index = index, Cmd = data, Result = 0\<rparr>] =
      Inr ([e], u') \<longrightarrow>
      Update ds session sid index trm data =
        Inr (Result e,
             map_option (\<lambda>s. s\<lparr>results := (results s)(sid \<mapsto> Result e)\<rparr>) session,
             ds\<lparr>ustate := u',
                events := events ds @ [EvUpdate [\<lparr>Index = index, Cmd = data, Result = 0\<rparr>]]\<rparr>)) \<and>
   IStateMachine_Update (Regular m) u [\<lparr>Index = index, Cmd = data, Result = 0\<rparr>] =
     Inr ([\<lparr>Index = index, Cmd = data, Result = fst (u_Update m u data)\<rparr>],
          snd (u_Update m u data))"
  using Update_retained [of session s sid v ds index trm data]
    Update_wrong_length [of session s sid ds index data rs u' trm]
    Update_applies [of session s sid ds index data e u' trm]
    Update_adapter_Regular [of m u index data]
  by blast

text \<open>
  The claim C3 as first stated has no second panic: with a concurrent user state
  machine that returns an empty batch, \<open>Update\<close> panics although the session retains
  nothing for the series ID, and also when no session is supplied.
\<close>

theorem Update_as_claimed_counterexample:
  "results demo_session 6 = None \<and>
   Update bad_ds (Some demo_session) 6 1 1 [1, 2] = Inl (Panic ''len(results) != 1'') \<and>
   Update bad_ds None 6 1 1 [1, 2] = Inl (Panic ''len(results) != 1'')"
  by (simp add: Update_def getResponse_def demo_session_def bad_ds_def bad_concurrent_def
      demo_concurrent_def NewNativeStateMachine_def ConcurrentStateMachine_Update_def Let_def)

text \<open>The amended claim C3 on concrete calls.\<close>

theorem Update_amended_witness:
  "Update demo_ds (Some demo_session) 5 1 1 [1, 2] =
     Inl (Panic ''already has response in session'') \<and>
   Update bad_ds (Some demo_session) 6 1 1 [1, 2] = Inl (Panic ''len(results) != 1'') \<and>
   Update demo_ds (Some demo_session) 6 1 1 [1, 2] =
     Inr (2, Some (demo_session\<lparr>results := [5 \<mapsto> 42, 6 \<mapsto> 2]\<rparr>),
          demo_ds\<lparr>ustate := 5, events := [EvUpdate [\<lparr>Index = 1, Cmd = [1, 2], Result = 0\<rparr>]]\<rparr>) \<and>
   Update demo_ds None 6 1 1 [1, 2] =
     Inr (2, None,
          demo_ds\<lparr>ustate := 5, events := [EvUpdate [\<lparr>Index = 1, Cmd = [1, 2], Result = 0\<rparr>]]\<rparr>)"
proof -
  have s: "results demo_session 5 = Some 42" "results demo_session 6 = None"
    by (simp_all add: demo_session_def)
  have b: "IStateMachine_Update (sm bad_ds) (ustate bad_ds)
      [\<lparr>Index = 1, Cmd = [1, 2], Result = 0\<rparr>] = Inr ([], 4)" "length ([] :: Entry list) \<noteq> 1"
    by (simp_all add: bad_ds_def bad_concurrent_def demo_concurrent_def
        NewNativeStateMachine_def ConcurrentStateMachine_Update_def)
  have g: "IStateMachine_Update (sm demo_ds) (ustate demo_ds)
      [\<lparr>Index = 1, Cmd = [1, 2], Result = 0\<rparr>] =
      Inr ([\<lparr>Index = 1, Cmd = [1, 2], Result = 2\<rparr>], 5)"
    by (simp add: demo_ds_def demo_user_def NewNativeStateMachine_def
        RegularStateMachine_Update_def)
  have e: "events demo_ds = []"
    by (simp add: demo_ds_def NewNativeStateMachine_def)
  have m: "(results demo_session)(6 \<mapsto> 2) = [5 \<mapsto> 42, 6 \<mapsto> 2]"
    by (simp add: demo_session_def)
  from Update_amended [of "Some demo_session" demo_session 5 42 demo_ds 1 1 "[1, 2]" "[]" 4
      "\<lparr>Index = 1, Cmd = [1, 2], Result = 2\<rparr>" demo_user 4]
    Update_amended [of "Some demo_session" demo_session 6 42 bad_ds 1 1 "[1, 2]" "[]" 4
      "\<lparr>Index = 1, Cmd = [1, 2], Result = 2\<rparr>" demo_user 4]
    Update_amended [of "Some demo_session" demo_session 6 42 demo_ds 1 1 "[1, 2]" "[]" 5
      "\<lparr>Index = 1, Cmd = [1, 2], Result = 2\<rparr>" demo_user 4]
    Update_amended [of None demo_session 6 42 demo_ds 1 1 "[1, 2]" "[]" 5
      "\<lparr>Index = 1, Cmd = [1, 2], Result = 2\<rparr>" demo_user 4]
    s b g e m
  show ?thesis by simp
qed

text \<open>
  Claim C2. \<open>RecoverFromSnapshot\<close> is to return an error whenever a stage fails. Here
  the header cannot be read, the session section cannot be restored, or the adapter
  cannot restore its payload, while the reader closes without an error: in each case
  the deferred function replaces the error by what \<open>Close\<close> returned, and the method
  returns nil. The reader is closed in all three runs.
\<close>

theorem RecoverFromSnapshot_swallows_error:
  "RecoverFromSnapshot demo_ds
     (\<lambda>fp. (demo_reader\<lparr>r_GetHeader := (0, Some (ErrOther ''unexpected EOF''))\<rparr>, None))
     (\<lambda>r. None) ''snapshot.gbsnap'' =
     (Inr None,
      demo_ds\<lparr>events := [EvNewSnapshotReader ''snapshot.gbsnap'', EvGetHeader, EvReaderClose]\<rparr>) \<and>
   RecoverFromSnapshot demo_ds (\<lambda>fp. (demo_reader, None))
     (\<lambda>r. Some (ErrOther ''corrupted sessions'')) ''snapshot.gbsnap'' =
     (Inr None,
      demo_ds\<lparr>events := [EvNewSnapshotReader ''snapshot.gbsnap'', EvGetHeader, EvValidateHeader,
         EvSessionsLoad, EvReaderClose]\<rparr>) \<and>
   RecoverFromSnapshot
     (demo_ds\<lparr>sm := Regular (demo_user\<lparr>u_RecoverFromSnapshot := (\<lambda>u. (Some (ErrOther ''bad payload''), u))\<rparr>)\<rparr>)
     (\<lambda>fp. (demo_reader, None)) (\<lambda>r. None) ''snapshot.gbsnap'' =
     (Inr None,
      demo_ds\<lparr>sm := Regular (demo_user\<lparr>u_RecoverFromSnapshot := (\<lambda>u. (Some (ErrOther ''bad payload''), u))\<rparr>),
         events := [EvNewSnapshotReader ''snapshot.gbsnap'', EvGetHeader, EvValidateHeader,
         EvSessionsLoad, EvRecoverFromSnapshot, EvReaderClose]\<rparr>)"
  by (simp add: RecoverFromSnapshot_def RecoverFromSnapshot_opened_def demo_reader_def
      demo_ds_def NewNativeStateMachine_def emit_def Let_def
      RegularStateMachine_RecoverFromSnapshot_def)

lemma RecoverFromSnapshot_open_error:
  assumes "NewSnapshotReader fp = (reader, Some e)"
  shows "RecoverFromSnapshot ds NewSnapshotReader sessions_load fp =
     (Inr (Some e), ds\<lparr>events := events ds @ [EvNewSnapshotReader fp]\<rparr>)"
  using assms by (simp add: RecoverFromSnapshot_def emit_def)

lemma RecoverFromSnapshot_closes_reader:
  assumes "NewSnapshotReader fp = (reader, None)"
  shows "last (events (snd (RecoverFromSnapshot ds NewSnapshotReader sessions_load fp))) =
     EvReaderClose"
  using assms
  by (simp add: RecoverFromSnapshot_def emit_def Let_def split_beta split: sum.splits)

lemma RecoverFromSnapshot_returns_Close:
  assumes "NewSnapshotReader fp = (reader, None)"
    and "fst (RecoverFromSnapshot ds NewSnapshotReader sessions_load fp) = Inr err"
  shows "err = r_Close reader"
  using assms
  by (simp add: RecoverFromSnapshot_def Let_def split_beta split: sum.splits)

end
